theory Spec2Isabelle
  imports Main "HOL-Library.Sublist" "HOL-Library.Multiset"
begin

section \<open>Shared objects (objects.py)\<close>

text \<open>
  Exceptions are values. Only the exception classes that the modelled code raises,
  catches or lets pass are listed; \<open>Exception\<close> is the bare \<^verbatim>\<open>raise Exception(msg)\<close>
  (the message is not modelled).
\<close>

datatype error =
    KeyError
  | AttributeError
  | TypeError
  | JIRAError
  | LDAPException
  | HTTPError
  | NoSuchOptError
  | Exception

text \<open>
  \<^verbatim>\<open>class User(Object)\<close>: \<open>name\<close> is required, \<open>email\<close> and \<open>launchpad_id\<close> are
  \<^verbatim>\<open>Optional[str]\<close> with default \<^verbatim>\<open>None\<close>.
\<close>

record User =
  name :: string
  email :: "string option"
  launchpad_id :: "string option"

text \<open>
  \<^verbatim>\<open>Object.__hash__\<close>: \<^verbatim>\<open>hash(self.name)\<close> when the object has the attribute \<open>name\<close>,
  \<^verbatim>\<open>TypeError\<close> otherwise. The attribute is passed as an option; Python's builtin hash of
  a string is the parameter \<open>h\<close>. A \<open>User\<close> always has a name.
\<close>

definition Object_hash :: "(string \<Rightarrow> int) \<Rightarrow> string option \<Rightarrow> error + int" where
  "Object_hash h name_attribute =
     (case name_attribute of Some n \<Rightarrow> Inr (h n) | None \<Rightarrow> Inl TypeError)"

definition User_hash :: "(string \<Rightarrow> int) \<Rightarrow> User \<Rightarrow> error + int" where
  "User_hash h u = Object_hash h (Some (name u))"

text \<open>
  Neither \<open>Object\<close> nor \<open>User\<close> defines \<^verbatim>\<open>__eq__\<close>, so \<^verbatim>\<open>==\<close> on two users is the
  one inherited from pydantic's \<open>BaseModel\<close>: two instances of the same model class are
  equal when all their field values are equal.
\<close>

definition User_eq :: "User \<Rightarrow> User \<Rightarrow> bool" where
  "User_eq a b = (name a = name b \<and> email a = email b \<and> launchpad_id a = launchpad_id b)"

text \<open>
  A Python \<^verbatim>\<open>set\<close> (and a \<^verbatim>\<open>dict\<close> for its keys) takes \<open>b\<close> for the element \<open>a\<close>
  it already holds when the hashes agree and \<^verbatim>\<open>a == b\<close>.
\<close>

definition same_element :: "(string \<Rightarrow> int) \<Rightarrow> User \<Rightarrow> User \<Rightarrow> bool" where
  "same_element h a b = (User_hash h a = User_hash h b \<and> User_eq a b)"

text \<open>
  A \<^verbatim>\<open>set\<close> is represented by the list of its elements without repetition, in the order
  of first insertion. \<open>set_add\<close> is \<^verbatim>\<open>s.add(x)\<close>, \<open>set_update\<close> is \<^verbatim>\<open>s.update(xs)\<close> and
  \<open>set_of\<close> is \<^verbatim>\<open>set(xs)\<close>. The element test is written with HOL equality: for
  users it is \<open>same_element\<close> (lemma \<open>same_element_iff\<close> below), for the other element
  types equal values have equal hashes as well.
\<close>

definition set_add :: "'a \<Rightarrow> 'a list \<Rightarrow> 'a list" where
  "set_add x s = (if x \<in> set s then s else s @ [x])"

definition set_update :: "'a list \<Rightarrow> 'a list \<Rightarrow> 'a list" where
  "set_update s xs = fold set_add xs s"

definition set_of :: "'a list \<Rightarrow> 'a list" where
  "set_of xs = set_update [] xs"

section \<open>Group change results (activities/launchpad.py)\<close>

record LaunchpadGroupChangeResult =
  group :: string
  success :: "User list"
  failed :: "(User \<times> string) list"

text \<open>\<^verbatim>\<open>LaunchpadGroupChangeResult(group=group)\<close>: both lists start empty.\<close>

definition new_result :: "string \<Rightarrow> LaunchpadGroupChangeResult" where
  "new_result g = \<lparr>group = g, success = [], failed = []\<rparr>"

definition has_failures :: "LaunchpadGroupChangeResult \<Rightarrow> bool" where
  "has_failures r = (length (failed r) = 0)"

definition add_success :: "LaunchpadGroupChangeResult \<Rightarrow> User \<Rightarrow> LaunchpadGroupChangeResult" where
  "add_success r user = r\<lparr>success := success r @ [user]\<rparr>"

definition add_failure ::
  "LaunchpadGroupChangeResult \<Rightarrow> User \<Rightarrow> string \<Rightarrow> LaunchpadGroupChangeResult" where
  "add_failure r user reason = r\<lparr>failed := failed r @ [(user, reason)]\<rparr>"

section \<open>Resolving users against the directory (activities/ldap.py)\<close>

definition ATTR_CN :: string where "ATTR_CN = ''cn''"
definition ATTR_LAUNCHPAD_ID :: string where "ATTR_LAUNCHPAD_ID = ''launchpadId''"
definition ATTR_MAIL :: string where "ATTR_MAIL = ''mail''"

definition get_identity_attribute :: "User \<Rightarrow> string" where
  "get_identity_attribute user =
     (if email user \<noteq> None then ''mail''
      else if launchpad_id user \<noteq> None then ''launchpadId''
      else ''cn'')"

definition get_filter_parameter :: "User \<Rightarrow> string" where
  "get_filter_parameter user =
     (case email user of
        Some e \<Rightarrow> ''(mail='' @ e @ '')''
      | None \<Rightarrow>
          (case launchpad_id user of
             Some l \<Rightarrow> ''(launchpadId='' @ l @ '')''
           | None \<Rightarrow> ''(cn='' @ name user @ '')''))"

text \<open>\<open>name\<close> is a \<^verbatim>\<open>str\<close>, so \<^verbatim>\<open>user.name is not None\<close> is always true.\<close>

definition is_fully_resolved :: "User \<Rightarrow> bool" where
  "is_fully_resolved user = (email user \<noteq> None \<and> launchpad_id user \<noteq> None \<and> True)"

text \<open>
  An entry of the search result. \<open>cn\<close>, \<open>mail\<close> and \<open>launchpadId\<close> stand for
  \<^verbatim>\<open>entry.cn.value\<close>, \<^verbatim>\<open>entry.mail.value\<close> and \<^verbatim>\<open>entry.launchpadId.value\<close>; the value of
  an attribute that the entry does not carry is \<^verbatim>\<open>None\<close>.
\<close>

record Entry =
  cn :: string
  mail :: "string option"
  launchpadId :: "string option"

text \<open>
  The directory server as the activity sees it. \<open>bind\<close> is what opening and binding the
  connection raises, if anything. \<open>search\<close> maps the OR-part of the search filter (the
  joined filter parameters; the text around it is constant) to \<^verbatim>\<open>client.entries\<close>, or to
  the exception raised; \<^verbatim>\<open>client.search(...)\<close> is false exactly when there are no entries.
\<close>

record Directory =
  bind :: "error option"
  search :: "string \<Rightarrow> error + Entry list"

text \<open>\<^verbatim>\<open>results_map\<close>: one dict per attribute, keyed by the attribute's value.\<close>

record ResultsMap =
  by_cn :: "string \<rightharpoonup> Entry"
  by_mail :: "string option \<rightharpoonup> Entry"
  by_launchpad_id :: "string option \<rightharpoonup> Entry"

definition index_entry :: "Entry \<Rightarrow> ResultsMap \<Rightarrow> ResultsMap" where
  "index_entry entry results_map =
     \<lparr>by_cn = (by_cn results_map)(cn entry \<mapsto> entry),
      by_mail = (by_mail results_map)(mail entry \<mapsto> entry),
      by_launchpad_id = (by_launchpad_id results_map)(launchpadId entry \<mapsto> entry)\<rparr>"

definition build_results_map :: "Entry list \<Rightarrow> ResultsMap" where
  "build_results_map entries =
     fold index_entry entries
       \<lparr>by_cn = Map.empty, by_mail = Map.empty, by_launchpad_id = Map.empty\<rparr>"

text \<open>
  The values the name \<^verbatim>\<open>attr\<close> can hold, and \<^verbatim>\<open>==\<close> between them: a \<^verbatim>\<open>bool\<close> never
  equals a \<^verbatim>\<open>str\<close>.
\<close>

datatype py_value = PyBool bool | PyStr string

fun py_eq :: "py_value \<Rightarrow> py_value \<Rightarrow> bool" where
  "py_eq (PyBool a) (PyBool b) = (a = b)"
| "py_eq (PyStr a) (PyStr b) = (a = b)"
| "py_eq (PyBool a) (PyStr b) = False"
| "py_eq (PyStr a) (PyBool b) = False"

fun truthy :: "py_value \<Rightarrow> bool" where
  "truthy (PyBool b) = b"
| "truthy (PyStr s) = (s \<noteq> [])"

text \<open>
  The lookup of one user. In
  \<^verbatim>\<open>if attr := get_identity_attribute(user) == ATTR_MAIL:\<close> the assignment expression
  binds the whole comparison, so \<^verbatim>\<open>attr\<close> is the boolean result of the comparison.
  \<^verbatim>\<open>dict.get\<close> returns \<^verbatim>\<open>None\<close> for a missing key.
\<close>

definition lookup_user :: "ResultsMap \<Rightarrow> User \<Rightarrow> Entry option" where
  "lookup_user results_map user =
     (let attr = PyBool (get_identity_attribute user = ATTR_MAIL) in
      if truthy attr then by_mail results_map (email user)
      else if py_eq attr (PyStr ATTR_LAUNCHPAD_ID) then
        by_launchpad_id results_map (launchpad_id user)
      else by_cn results_map (name user))"

text \<open>
  The loop \<^verbatim>\<open>for user in users\<close>. When \<^verbatim>\<open>result\<close> is \<^verbatim>\<open>None\<close>, \<^verbatim>\<open>result.cn\<close> raises
  \<^verbatim>\<open>AttributeError\<close>.
\<close>

fun resolve_loop :: "ResultsMap \<Rightarrow> User list \<Rightarrow> User list \<Rightarrow> error + User list" where
  "resolve_loop results_map [] resolved_users = Inr resolved_users"
| "resolve_loop results_map (user # users) resolved_users =
     (case lookup_user results_map user of
        None \<Rightarrow> Inl AttributeError
      | Some result \<Rightarrow>
          resolve_loop results_map users
            (set_add \<lparr>name = cn result, email = mail result,
                      launchpad_id = launchpadId result\<rparr> resolved_users))"

text \<open>
  The part of \<open>resolve_users\<close> that asks the directory, from
  \<^verbatim>\<open>ldap_server = Server(...)\<close> on: it returns the search filters it sent, in order, and
  the result. \<^verbatim>\<open>except LDAPException\<close> re-raises, so every exception leaves the activity
  unchanged.
\<close>

definition query_users :: "Directory \<Rightarrow> User list \<Rightarrow> string list \<times> (error + User list)" where
  "query_users ldap users =
     (case bind ldap of
        Some e \<Rightarrow> ([], Inl e)
      | None \<Rightarrow>
          (let search_filter = concat (map get_filter_parameter users) in
           case search ldap search_filter of
             Inl e \<Rightarrow> ([search_filter], Inl e)
           | Inr entries \<Rightarrow>
               if entries = [] then ([search_filter], Inl Exception)
               else ([search_filter],
                     resolve_loop (build_results_map entries) users [])))"

text \<open>
  \<open>resolve_users\<close>: the two early returns, then the directory. The first component of
  the result is the list of search filters sent to the directory.
\<close>

definition resolve_users :: "Directory \<Rightarrow> User list \<Rightarrow> string list \<times> (error + User list)" where
  "resolve_users ldap users =
     (if users = [] then ([], Inr [])
      else if list_all is_fully_resolved users then ([], Inr (set_of users))
      else query_users ldap users)"

section \<open>Adding users to a group (activities/launchpad.py)\<close>

text \<open>
  The people and teams of the group service. A membership names its team; two entries
  are the same team when their names agree.
\<close>

record Membership =
  team :: string
  status :: string

record Person =
  person_name :: string
  is_valid :: bool
  memberships_details :: "Membership list"

text \<open>
  \<open>people\<close> is \<^verbatim>\<open>launchpad.people[key]\<close>, which raises \<^verbatim>\<open>KeyError\<close> for an unknown key
  (or whatever the service raises); \<open>addMember\<close> is what
  \<^verbatim>\<open>lp_group.addMember(person=lp_user, status="Approved")\<close> raises, if anything.
\<close>

record Launchpad =
  people :: "string \<Rightarrow> error + Person"
  addMember :: "Person \<Rightarrow> Person \<Rightarrow> error option"

fun check_memberships_loop ::
  "Membership list \<Rightarrow> Person \<Rightarrow> Person \<Rightarrow> bool \<Rightarrow> bool \<Rightarrow> bool \<times> bool" where
  "check_memberships_loop [] canonical_group target_group is_employee already_in_group =
     (is_employee, already_in_group)"
| "check_memberships_loop (membership # rest) canonical_group target_group
       is_employee already_in_group =
     (if team membership = person_name canonical_group then
        (if already_in_group then (True, already_in_group)
         else check_memberships_loop rest canonical_group target_group True already_in_group)
      else if team membership = person_name target_group
              \<and> status membership \<in> {''Approved'', ''Administrator''} then
        (if is_employee then (is_employee, True)
         else check_memberships_loop rest canonical_group target_group is_employee True)
      else check_memberships_loop rest canonical_group target_group
             is_employee already_in_group)"

definition check_memberships :: "Person \<Rightarrow> Person \<Rightarrow> Person \<Rightarrow> bool \<times> bool" where
  "check_memberships lp_user canonical_group target_group =
     check_memberships_loop (memberships_details lp_user) canonical_group target_group
       False False"

text \<open>
  The body of the \<^verbatim>\<open>try\<close> for one user: the result with the user's entry added, or the
  exception raised. \<^verbatim>\<open>not user.launchpad_id\<close> holds for \<^verbatim>\<open>None\<close> and for the empty string.
\<close>

definition try_user ::
  "Launchpad \<Rightarrow> Person \<Rightarrow> Person \<Rightarrow> User \<Rightarrow> LaunchpadGroupChangeResult
     \<Rightarrow> error + LaunchpadGroupChangeResult" where
  "try_user launchpad lp_group lp_canonical user result =
     (case launchpad_id user of
        None \<Rightarrow> Inr (add_failure result user ''no launchpad id'')
      | Some lid \<Rightarrow>
          if lid = [] then Inr (add_failure result user ''no launchpad id'')
          else
            (case people launchpad lid of
               Inl e \<Rightarrow> Inl e
             | Inr lp_user \<Rightarrow>
                 if \<not> is_valid lp_user then
                   Inr (add_failure result user ''invalid launchpad user'')
                 else
                   (case check_memberships lp_user lp_canonical lp_group of
                      (is_employee, in_group) \<Rightarrow>
                        if \<not> is_employee then
                          Inr (add_failure result user ''not a Canonical employee'')
                        else if in_group then Inr (add_success result user)
                        else
                          (case addMember launchpad lp_group lp_user of
                             Some e \<Rightarrow> Inl e
                           | None \<Rightarrow> Inr (add_success result user)))))"

text \<open>The loop over the users; \<^verbatim>\<open>except KeyError\<close> records a failure and goes on.\<close>

fun users_loop ::
  "Launchpad \<Rightarrow> Person \<Rightarrow> Person \<Rightarrow> User list \<Rightarrow> LaunchpadGroupChangeResult
     \<Rightarrow> error + LaunchpadGroupChangeResult" where
  "users_loop launchpad lp_group lp_canonical [] result = Inr result"
| "users_loop launchpad lp_group lp_canonical (user # users) result =
     (case try_user launchpad lp_group lp_canonical user result of
        Inr result' \<Rightarrow> users_loop launchpad lp_group lp_canonical users result'
      | Inl e \<Rightarrow>
          if e = KeyError then
            users_loop launchpad lp_group lp_canonical users
              (add_failure result user ''User not in launchpad'')
          else Inl e)"

definition add_users_to_group ::
  "Launchpad \<Rightarrow> string \<Rightarrow> User list \<Rightarrow> error + LaunchpadGroupChangeResult" where
  "add_users_to_group launchpad g users =
     (case people launchpad g of
        Inl e \<Rightarrow> Inl e
      | Inr lp_group \<Rightarrow>
          (case people launchpad ''canonical'' of
             Inl e \<Rightarrow> Inl e
           | Inr lp_canonical \<Rightarrow>
               users_loop launchpad lp_group lp_canonical users (new_result g)))"

section \<open>Resources (resources/)\<close>

text \<open>
  \<open>InfraNode(name, ip_address)\<close> and \<open>OpenStackProject(name, project_id, cloud)\<close>. Both
  hash by \<open>name\<close> and compare field by field, as users do.
\<close>

datatype Resource =
    is_InfraNode: InfraNode (resource_name: string) (ip_address: string)
  | is_OpenStackProject: OpenStackProject (resource_name: string)
      (project_id: "string option") (project_cloud: string)

text \<open>
  A \<^verbatim>\<open>dict\<close> is the list of its items in insertion order. \<open>dict_set\<close> is \<^verbatim>\<open>d[k] = v\<close>
  (an existing key keeps its place), \<open>dict_get\<close> is \<^verbatim>\<open>d.get(k, dflt)\<close>.
\<close>

fun dict_set :: "'k \<Rightarrow> 'v \<Rightarrow> ('k \<times> 'v) list \<Rightarrow> ('k \<times> 'v) list" where
  "dict_set k v [] = [(k, v)]"
| "dict_set k v ((k', v') # d) =
     (if k' = k then (k', v) # d else (k', v') # dict_set k v d)"

definition dict_get :: "('k \<times> 'v) list \<Rightarrow> 'k \<Rightarrow> 'v \<Rightarrow> 'v" where
  "dict_get d k dflt = (case map_of d k of None \<Rightarrow> dflt | Some v \<Rightarrow> v)"

section \<open>Access requirements from the tickets (activities/jira.py)\<close>

record JiraUser =
  displayName :: string
  emailAddress :: "string option"

text \<open>
  An issue link: \<open>link_type_name\<close> is \<^verbatim>\<open>link.type.name\<close>, \<open>inwardIssue\<close> the key of
  \<^verbatim>\<open>link.inwardIssue\<close>, \<open>None\<close> when the link has no such attribute.
\<close>

record IssueLink =
  link_type_name :: string
  inwardIssue :: "string option"

text \<open>
  The fields of an issue that the activity reads: \<open>status_name\<close> is
  \<^verbatim>\<open>issue.get_field("status").name\<close>, \<open>integration_layer\<close> the \<^verbatim>\<open>.value\<close> of each option of
  \<^verbatim>\<open>customfield_10579\<close>, \<open>collaborators\<close> is \<^verbatim>\<open>customfield_10112\<close>; a field that is unset
  reads \<^verbatim>\<open>None\<close>. \<open>issuelinks\<close> is \<open>None\<close> when \<^verbatim>\<open>issue.fields\<close> has no such attribute.
\<close>

record Issue =
  key :: string
  status_name :: string
  integration_layer :: "string list option"
  collaborators :: "JiraUser list option"
  assignee :: "JiraUser option"
  issuelinks :: "IssueLink list option"

text \<open>The two searches of \<open>JiraClient\<close>; each may raise \<^verbatim>\<open>JIRAError\<close>.\<close>

record Jira =
  get_issues_for_current_sprint :: "string \<Rightarrow> error + Issue list"
  get_issues_by_keys :: "string list \<Rightarrow> error + Issue list"

definition is_issue_completed :: "Issue \<Rightarrow> bool" where
  "is_issue_completed issue = (status_name issue = ''Done'')"

fun prerequisite_issues :: "IssueLink list \<Rightarrow> string list" where
  "prerequisite_issues [] = []"
| "prerequisite_issues (link # links) =
     (if \<not> prefix ''Finish-to-Start'' (link_type_name link) then prerequisite_issues links
      else
        (case inwardIssue link of
           None \<Rightarrow> prerequisite_issues links
         | Some k \<Rightarrow> k # prerequisite_issues links))"

definition get_pending_prerequisite_issues ::
  "Jira \<Rightarrow> Issue \<Rightarrow> error + string list option" where
  "get_pending_prerequisite_issues jira issue =
     (case issuelinks issue of
        None \<Rightarrow> Inr None
      | Some links \<Rightarrow>
          if prerequisite_issues links = [] then Inr None
          else
            (case get_issues_by_keys jira (prerequisite_issues links) of
               Inl e \<Rightarrow> Inl e
             | Inr tasks \<Rightarrow>
                 Inr (Some (map key (filter (\<lambda>task. \<not> is_issue_completed task) tasks)))))"

text \<open>
  \<open>convert_user\<close> reads \<^verbatim>\<open>user.displayName\<close>; on \<^verbatim>\<open>None\<close> that raises
  \<^verbatim>\<open>AttributeError\<close>.
\<close>

definition convert_user :: "JiraUser option \<Rightarrow> error + User" where
  "convert_user user =
     (case user of
        None \<Rightarrow> Inl AttributeError
      | Some u \<Rightarrow> Inr \<lparr>name = displayName u, email = emailAddress u, launchpad_id = None\<rparr>)"

text \<open>\<^verbatim>\<open>[convert_user(user) for user in jira_users]\<close>\<close>

fun convert_users :: "JiraUser option list \<Rightarrow> error + User list" where
  "convert_users [] = Inr []"
| "convert_users (user # rest) =
     (case convert_user user of
        Inl e \<Rightarrow> Inl e
      | Inr u \<Rightarrow> (case convert_users rest of Inl e \<Rightarrow> Inl e | Inr us \<Rightarrow> Inr (u # us)))"

text \<open>
  \<^verbatim>\<open>jira_users = issue.get_field(FIELD_COLLABORATORS) or []\<close> followed by
  \<^verbatim>\<open>jira_users.append(issue.get_field(FIELD_ASSIGNEE))\<close>.
\<close>

definition jira_users :: "Issue \<Rightarrow> JiraUser option list" where
  "jira_users issue =
     map Some (case collaborators issue of None \<Rightarrow> [] | Some cs \<Rightarrow> cs) @ [assignee issue]"

definition integrations :: "Issue \<Rightarrow> string list" where
  "integrations issue = (case integration_layer issue of None \<Rightarrow> [] | Some vs \<Rightarrow> vs)"

text \<open>\<^verbatim>\<open>str.lower\<close>, on the ASCII letters.\<close>

definition char_lower :: "char \<Rightarrow> char" where
  "char_lower c =
     (if (65::nat) \<le> of_char c \<and> of_char c \<le> (90::nat) then char_of (of_char c + (32::nat))
      else c)"

definition lower :: "string \<Rightarrow> string" where
  "lower s = map char_lower s"

text \<open>
  \<^verbatim>\<open>resource_map[resource].update(users)\<close> on a \<^verbatim>\<open>defaultdict(set)\<close>: a missing key
  starts from the empty set.
\<close>

definition update_users ::
  "Resource \<Rightarrow> User list \<Rightarrow> (Resource \<times> User list) list \<Rightarrow> (Resource \<times> User list) list" where
  "update_users resource users resource_map =
     dict_set resource (set_update (dict_get resource_map resource []) users) resource_map"

text \<open>The loop over the integration layers of one issue.\<close>

fun integrations_loop ::
  "string \<Rightarrow> Resource \<Rightarrow> string \<Rightarrow> User list \<Rightarrow> string list
     \<Rightarrow> (Resource \<times> User list) list \<Rightarrow> (Resource \<times> User list) list" where
  "integrations_loop cloud infra_node issue_key users [] resource_map = resource_map"
| "integrations_loop cloud infra_node issue_key users (integration # rest) resource_map =
     (if integration = ''Infrastructure'' then
        integrations_loop cloud infra_node issue_key users rest
          (update_users infra_node users resource_map)
      else if integration = ''Platform'' then
        integrations_loop cloud infra_node issue_key users rest
          (update_users (OpenStackProject (lower issue_key) None cloud) users resource_map)
      else if integration = ''Application'' then
        integrations_loop cloud infra_node issue_key users rest resource_map
      else integrations_loop cloud infra_node issue_key users rest resource_map)"

text \<open>
  The loop over the issues. \<^verbatim>\<open>if pending_issues := ...\<close> is taken for a non-empty list
  only.
\<close>

fun issues_loop ::
  "Jira \<Rightarrow> string \<Rightarrow> Resource \<Rightarrow> Issue list \<Rightarrow> (Resource \<times> User list) list
     \<Rightarrow> error + (Resource \<times> User list) list" where
  "issues_loop jira cloud infra_node [] resource_map = Inr resource_map"
| "issues_loop jira cloud infra_node (issue # issues) resource_map =
     (if is_issue_completed issue then issues_loop jira cloud infra_node issues resource_map
      else
        (case get_pending_prerequisite_issues jira issue of
           Inl e \<Rightarrow> Inl e
         | Inr pending_issues \<Rightarrow>
             if pending_issues \<noteq> None \<and> pending_issues \<noteq> Some [] then
               issues_loop jira cloud infra_node issues resource_map
             else
               (case convert_users (jira_users issue) of
                  Inl e \<Rightarrow> Inl e
                | Inr users \<Rightarrow>
                    issues_loop jira cloud infra_node issues
                      (integrations_loop cloud infra_node (key issue) users
                         (integrations issue) resource_map))))"

text \<open>\<open>AccessResult\<close>: the resources, and the user sets keyed by resource name.\<close>

record AccessResult =
  resources :: "Resource list"
  user_map :: "(string \<times> User list) list"

definition from_map :: "(Resource \<times> User list) list \<Rightarrow> AccessResult" where
  "from_map data =
     \<lparr>resources = map fst data,
      user_map = fold (\<lambda>(resource, users) m. dict_set (resource_name resource) users m) data []\<rparr>"

definition to_map :: "AccessResult \<Rightarrow> (Resource \<times> User list) list" where
  "to_map self =
     fold (\<lambda>resource mapping.
             dict_set resource (dict_get (user_map self) (resource_name resource) []) mapping)
       (resources self) []"

text \<open>
  The configuration: \<open>clouds\<close> is \<^verbatim>\<open>CONF.clouds\<close>, \<open>sections\<close> the per-cloud groups;
  \<^verbatim>\<open>CONF.get(c)\<close> raises \<^verbatim>\<open>NoSuchOptError\<close> for a group that is not registered.
\<close>

record CloudConfig =
  config_name :: string
  infra_group :: string
  user_group :: string
  infra_node_ip :: string

record Conf =
  clouds :: "string list"
  sections :: "string \<rightharpoonup> CloudConfig"

definition CONF_get :: "Conf \<Rightarrow> string \<Rightarrow> error + CloudConfig" where
  "CONF_get conf c = (case sections conf c of None \<Rightarrow> Inl NoSuchOptError | Some config \<Rightarrow> Inr config)"

definition get_access_for_current_sprint ::
  "Conf \<Rightarrow> Jira \<Rightarrow> string \<Rightarrow> error + AccessResult" where
  "get_access_for_current_sprint conf jira cloud =
     (case get_issues_for_current_sprint jira cloud of
        Inl e \<Rightarrow> Inl e
      | Inr issues \<Rightarrow>
          (case CONF_get conf cloud of
             Inl e \<Rightarrow> Inl e
           | Inr config \<Rightarrow>
               (case issues_loop jira cloud
                       (InfraNode (cloud @ ''-infra-node'') (infra_node_ip config)) issues [] of
                  Inl e \<Rightarrow> Inl e
                | Inr resource_map \<Rightarrow> Inr (from_map resource_map))))"

section \<open>The grant-access workflow (workflows/grant\_access.py)\<close>

text \<open>
  The services a run talks to. An activity call is the call of the activity's function;
  what the activity raises is what the workflow's \<^verbatim>\<open>await\<close> raises (timeouts and retries
  of activities are left to the execution substrate and are not modelled).
\<close>

record Env =
  CONF :: Conf
  jira_server :: Jira
  ldap_server :: Directory
  launchpad_service :: Launchpad

fun find_cloud_config :: "Conf \<Rightarrow> string list \<Rightarrow> string \<Rightarrow> error + CloudConfig option" where
  "find_cloud_config conf [] cloud = Inr None"
| "find_cloud_config conf (c # cs) cloud =
     (case CONF_get conf c of
        Inl e \<Rightarrow> Inl e
      | Inr config \<Rightarrow>
          if config_name config = cloud then Inr (Some config)
          else find_cloud_config conf cs cloud)"

text \<open>
  \<^verbatim>\<open>for resource, users in resource_map.copy().items()\<close>: every user set is replaced
  by the resolved one.
\<close>

fun resolve_all ::
  "Directory \<Rightarrow> (Resource \<times> User list) list \<Rightarrow> (Resource \<times> User list) list
     \<Rightarrow> error + (Resource \<times> User list) list" where
  "resolve_all ldap [] resource_map = Inr resource_map"
| "resolve_all ldap ((resource, users) # items) resource_map =
     (case snd (resolve_users ldap users) of
        Inl e \<Rightarrow> Inl e
      | Inr resolved_users \<Rightarrow> resolve_all ldap items (dict_set resource resolved_users resource_map))"

text \<open>
  The list \<^verbatim>\<open>tasks\<close>, each task with the outcome of its activity once
  \<^verbatim>\<open>asyncio.wait(tasks)\<close> has returned: the group change result, or the exception the
  activity raised (\<^verbatim>\<open>asyncio.wait\<close> does not re-raise it).
\<close>

fun start_tasks ::
  "Launchpad \<Rightarrow> CloudConfig \<Rightarrow> (Resource \<times> User list) list
     \<Rightarrow> (error + LaunchpadGroupChangeResult) list" where
  "start_tasks lp cloud_config [] = []"
| "start_tasks lp cloud_config ((resource, users) # items) =
     (if users = [] then start_tasks lp cloud_config items
      else
        (if is_InfraNode resource then
           [add_users_to_group lp (infra_group cloud_config) users] else [])
        @ (if is_OpenStackProject resource then
             [add_users_to_group lp (user_group cloud_config) users] else [])
        @ start_tasks lp cloud_config items)"

definition grant_tasks ::
  "Env \<Rightarrow> string \<Rightarrow> string \<Rightarrow> error + (error + LaunchpadGroupChangeResult) list" where
  "grant_tasks env project cloud =
     (case find_cloud_config (CONF env) (clouds (CONF env)) cloud of
        Inl e \<Rightarrow> Inl e
      | Inr None \<Rightarrow> Inl Exception
      | Inr (Some cloud_config) \<Rightarrow>
          (case get_access_for_current_sprint (CONF env) (jira_server env)
                  (config_name cloud_config) of
             Inl e \<Rightarrow> Inl e
           | Inr access_result \<Rightarrow>
               (case resolve_all (ldap_server env) (to_map access_result)
                       (to_map access_result) of
                  Inl e \<Rightarrow> Inl e
                | Inr resource_map \<Rightarrow>
                    Inr (start_tasks (launchpad_service env) cloud_config resource_map))))"

text \<open>\<open>run\<close> waits for the tasks and returns \<^verbatim>\<open>0, 0\<close>.\<close>

definition run :: "Env \<Rightarrow> string \<Rightarrow> string \<Rightarrow> error + int \<times> int" where
  "run env project cloud =
     (case grant_tasks env project cloud of
        Inl e \<Rightarrow> Inl e
      | Inr tasks \<Rightarrow> Inr (0, 0))"

section \<open>Notions used to state the properties\<close>

text \<open>
  An issue is acted upon when the loop over the issues reaches the conversion of its
  users: it is not completed and has no pending prerequisite.
\<close>

definition actionable :: "Jira \<Rightarrow> Issue \<Rightarrow> bool" where
  "actionable jira issue =
     (\<not> is_issue_completed issue
      \<and> (get_pending_prerequisite_issues jira issue = Inr None
         \<or> get_pending_prerequisite_issues jira issue = Inr (Some [])))"

text \<open>The users of an issue, when their conversion does not raise.\<close>

definition issue_users :: "Issue \<Rightarrow> User list" where
  "issue_users issue =
     (case convert_users (jira_users issue) of Inl e \<Rightarrow> [] | Inr users \<Rightarrow> users)"

text \<open>The resources whose user sets the loop over the integration layers updates.\<close>

definition layer_resources :: "string \<Rightarrow> Resource \<Rightarrow> string \<Rightarrow> string list \<Rightarrow> Resource set" where
  "layer_resources cloud infra_node issue_key layers =
     (if ''Infrastructure'' \<in> set layers then {infra_node} else {})
     \<union> (if ''Platform'' \<in> set layers
        then {OpenStackProject (lower issue_key) None cloud} else {})"

definition issue_resources :: "string \<Rightarrow> Resource \<Rightarrow> Issue \<Rightarrow> Resource set" where
  "issue_resources cloud infra_node issue =
     layer_resources cloud infra_node (key issue) (integrations issue)"

text \<open>
  The identity that the loop of \<open>resolve_users\<close> builds for a user: the one made of the
  record found for it, if any.
\<close>

definition resolved_identity :: "ResultsMap \<Rightarrow> User \<Rightarrow> User option" where
  "resolved_identity results_map user =
     (case lookup_user results_map user of
        None \<Rightarrow> None
      | Some result \<Rightarrow>
          Some \<lparr>name = cn result, email = mail result, launchpad_id = launchpadId result\<rparr>)"



section \<open>Example inputs\<close>

text \<open>A string hash for the examples: the length of the string.\<close>

definition example_hash :: "string \<Rightarrow> int" where
  "example_hash s = int (length s)"

text \<open>Users as \<open>convert_user\<close> makes them from the tickets, and as the directory knows them.\<close>

definition ann_ticket :: User where
  "ann_ticket = \<lparr>name = ''ann'', email = Some ''ann@example.com'', launchpad_id = None\<rparr>"

definition ann_bare :: User where
  "ann_bare = \<lparr>name = ''ann'', email = None, launchpad_id = None\<rparr>"

definition bob_ticket :: User where
  "bob_ticket = \<lparr>name = ''bob'', email = Some ''bob@example.com'', launchpad_id = None\<rparr>"

definition bob_by_id :: User where
  "bob_by_id = \<lparr>name = ''bob'', email = None, launchpad_id = Some ''bob-lp''\<rparr>"

definition carol_ticket :: User where
  "carol_ticket = \<lparr>name = ''carol'', email = Some ''carol@example.com'', launchpad_id = None\<rparr>"

definition ann_resolved :: User where
  "ann_resolved =
     \<lparr>name = ''Ann Example'', email = Some ''ann@example.com'', launchpad_id = Some ''ann-lp''\<rparr>"

definition bob_resolved :: User where
  "bob_resolved =
     \<lparr>name = ''Bob Builder'', email = Some ''bob@example.com'', launchpad_id = Some ''bob-lp''\<rparr>"

definition ann_stale :: User where
  "ann_stale =
     \<lparr>name = ''ann'', email = Some ''ann@example.com'', launchpad_id = Some ''ann-lp''\<rparr>"




definition ann_entry :: Entry where
  "ann_entry =
     \<lparr>cn = ''Ann Example'', mail = Some ''ann@example.com'', launchpadId = Some ''ann-lp''\<rparr>"

definition bob_entry :: Entry where
  "bob_entry =
     \<lparr>cn = ''Bob Builder'', mail = Some ''bob@example.com'', launchpadId = Some ''bob-lp''\<rparr>"

text \<open>A directory that knows ann and bob, one that knows ann only, and an empty one.\<close>

definition search_ann_bob :: "string \<Rightarrow> error + Entry list" where
  "search_ann_bob f =
     (if f = ''(mail=ann@example.com)(mail=bob@example.com)'' then Inr [ann_entry, bob_entry]
      else if f = ''(mail=ann@example.com)'' then Inr [ann_entry]
      else if f = ''(launchpadId=bob-lp)'' then Inr [bob_entry]
      else Inr [])"

definition directory_ann_bob :: Directory where
  "directory_ann_bob = \<lparr>bind = None, search = search_ann_bob\<rparr>"

definition search_ann :: "string \<Rightarrow> error + Entry list" where
  "search_ann f =
     (if f = ''(mail=ann@example.com)(mail=bob@example.com)'' then Inr [ann_entry] else Inr [])"

definition directory_ann :: Directory where
  "directory_ann = \<lparr>bind = None, search = search_ann\<rparr>"

definition search_nothing :: "string \<Rightarrow> error + Entry list" where
  "search_nothing f = Inr []"

definition directory_empty :: Directory where
  "directory_empty = \<lparr>bind = None, search = search_nothing\<rparr>"

text \<open>
  A group service with the teams \<open>canonical\<close>, \<open>pc5a-infra\<close> and \<open>pc5a-users\<close>; ann is an
  employee, bob is an employee who is in \<open>pc5a-infra\<close> already, eve is not a valid user,
  frank is not an employee, and nobody else is known.
\<close>

definition example_people :: "string \<Rightarrow> error + Person" where
  "example_people k =
     (if k = ''canonical'' then
        Inr \<lparr>person_name = ''canonical'', is_valid = True, memberships_details = []\<rparr>
      else if k = ''pc5a-infra'' then
        Inr \<lparr>person_name = ''pc5a-infra'', is_valid = True, memberships_details = []\<rparr>
      else if k = ''pc5a-users'' then
        Inr \<lparr>person_name = ''pc5a-users'', is_valid = True, memberships_details = []\<rparr>
      else if k = ''ann-lp'' then
        Inr \<lparr>person_name = ''ann-lp'', is_valid = True,
             memberships_details = [\<lparr>team = ''canonical'', status = ''Approved''\<rparr>]\<rparr>
      else if k = ''bob-lp'' then
        Inr \<lparr>person_name = ''bob-lp'', is_valid = True,
             memberships_details =
               [\<lparr>team = ''canonical'', status = ''Approved''\<rparr>,
                \<lparr>team = ''pc5a-infra'', status = ''Approved''\<rparr>]\<rparr>
      else if k = ''eve-lp'' then
        Inr \<lparr>person_name = ''eve-lp'', is_valid = False,
             memberships_details = [\<lparr>team = ''canonical'', status = ''Approved''\<rparr>]\<rparr>
      else if k = ''frank-lp'' then
        Inr \<lparr>person_name = ''frank-lp'', is_valid = True,
             memberships_details = [\<lparr>team = ''pc5a-users'', status = ''Approved''\<rparr>]\<rparr>
      else Inl KeyError)"

definition example_addMember :: "Person \<Rightarrow> Person \<Rightarrow> error option" where
  "example_addMember lp_group lp_user = None"

definition example_launchpad :: Launchpad where
  "example_launchpad = \<lparr>people = example_people, addMember = example_addMember\<rparr>"





text \<open>The cloud \<open>PC5a\<close> and its tickets.\<close>

definition example_conf :: Conf where
  "example_conf =
     \<lparr>clouds = [''PC5a''],
      sections = [''PC5a'' \<mapsto>
        \<lparr>config_name = ''PC5a'', infra_group = ''pc5a-infra'', user_group = ''pc5a-users'',
         infra_node_ip = ''10.0.0.1''\<rparr>]\<rparr>"

definition jira_ann :: JiraUser where
  "jira_ann = \<lparr>displayName = ''ann'', emailAddress = Some ''ann@example.com''\<rparr>"

definition jira_bob :: JiraUser where
  "jira_bob = \<lparr>displayName = ''bob'', emailAddress = Some ''bob@example.com''\<rparr>"

definition jira_carol :: JiraUser where
  "jira_carol = \<lparr>displayName = ''carol'', emailAddress = Some ''carol@example.com''\<rparr>"

definition issue_42 :: Issue where
  "issue_42 =
     \<lparr>key = ''PACLOUD-42'', status_name = ''In Progress'',
      integration_layer = Some [''Infrastructure''], collaborators = Some [jira_ann],
      assignee = Some jira_bob, issuelinks = None\<rparr>"

definition issue_43 :: Issue where
  "issue_43 =
     \<lparr>key = ''PACLOUD-43'', status_name = ''In Progress'',
      integration_layer = Some [''Infrastructure''], collaborators = Some [jira_carol],
      assignee = Some jira_ann, issuelinks = None\<rparr>"

definition issue_unassigned :: Issue where
  "issue_unassigned =
     \<lparr>key = ''PACLOUD-44'', status_name = ''In Progress'',
      integration_layer = Some [''Infrastructure''], collaborators = Some [jira_ann],
      assignee = None, issuelinks = None\<rparr>"

definition no_issues_by_keys :: "string list \<Rightarrow> error + Issue list" where
  "no_issues_by_keys keys = Inr []"

definition sprint_42 :: "string \<Rightarrow> error + Issue list" where
  "sprint_42 cloud = Inr [issue_42]"

definition sprint_42_43 :: "string \<Rightarrow> error + Issue list" where
  "sprint_42_43 cloud = Inr [issue_42, issue_43]"

definition sprint_unassigned :: "string \<Rightarrow> error + Issue list" where
  "sprint_unassigned cloud = Inr [issue_unassigned]"

definition jira_42 :: Jira where
  "jira_42 = \<lparr>get_issues_for_current_sprint = sprint_42,
               get_issues_by_keys = no_issues_by_keys\<rparr>"

definition jira_42_43 :: Jira where
  "jira_42_43 = \<lparr>get_issues_for_current_sprint = sprint_42_43,
                  get_issues_by_keys = no_issues_by_keys\<rparr>"

definition jira_unassigned :: Jira where
  "jira_unassigned = \<lparr>get_issues_for_current_sprint = sprint_unassigned,
                       get_issues_by_keys = no_issues_by_keys\<rparr>"

definition example_env :: Env where
  "example_env =
     \<lparr>CONF = example_conf, jira_server = jira_42, ldap_server = directory_ann_bob,
      launchpad_service = example_launchpad\<rparr>"

definition example_infra_node :: Resource where
  "example_infra_node = InfraNode ''PC5a-infra-node'' ''10.0.0.1''"

definition example_outcome :: LaunchpadGroupChangeResult where
  "example_outcome =
     \<lparr>group = ''pc5a-infra'', success = [ann_resolved, bob_resolved], failed = []\<rparr>"

definition access_42_43 :: AccessResult where
  "access_42_43 =
     \<lparr>resources = [example_infra_node],
      user_map = [(''PC5a-infra-node'', [ann_ticket, bob_ticket, carol_ticket])]\<rparr>"

section \<open>Sets of users\<close>

lemma same_element_iff: "same_element h a b \<longleftrightarrow> a = b"
  by (auto simp: same_element_def User_hash_def Object_hash_def User_eq_def)

lemma set_add_set: "set (set_add x s) = insert x (set s)"
  by (auto simp: set_add_def)

lemma set_add_distinct: "distinct s \<Longrightarrow> distinct (set_add x s)"
  by (auto simp: set_add_def)

lemma set_update_set: "set (set_update s xs) = set s \<union> set xs"
  unfolding set_update_def by (induction xs arbitrary: s) (auto simp: set_add_set)

lemma set_update_distinct: "distinct s \<Longrightarrow> distinct (set_update s xs)"
  unfolding set_update_def by (induction xs arbitrary: s) (auto simp: set_add_distinct)

lemma set_of_set: "set (set_of xs) = set xs"
  by (simp add: set_of_def set_update_set)

lemma set_of_distinct: "distinct (set_of xs)"
  by (simp add: set_of_def set_update_distinct)

lemma fold_set_add_distinct: "distinct (s @ xs) \<Longrightarrow> fold set_add xs s = s @ xs"
  by (induction xs arbitrary: s) (auto simp: set_add_def)

lemma set_of_id: "distinct xs \<Longrightarrow> set_of xs = xs"
  using fold_set_add_distinct [of "[]" xs] by (simp add: set_of_def set_update_def)

text \<open>
  C3. The claim: two users with equal names are the same element of a set, whatever
  their email and launchpad id. On the code only the hash is by name; \<^verbatim>\<open>==\<close> compares all
  fields, and a set holds two users of the same name side by side when another field
  differs.
\<close>

theorem same_name_counterexample:
  "name ann_ticket = name ann_bare
   \<and> \<not> same_element example_hash ann_ticket ann_bare
   \<and> set_add ann_bare [ann_ticket] = [ann_ticket, ann_bare]"
  by (simp add: same_element_def User_eq_def ann_ticket_def ann_bare_def set_add_def)

text \<open>
  C3, as amended: two users with equal names have equal hashes, and they are the same
  element of a set exactly when their email and launchpad id are equal as well.
\<close>

theorem same_name_same_hash:
  "name a = name b \<Longrightarrow>
     User_hash h a = User_hash h b
     \<and> (same_element h a b \<longleftrightarrow> email a = email b \<and> launchpad_id a = launchpad_id b)"
  by (simp add: same_element_def User_hash_def Object_hash_def User_eq_def)

theorem same_name_same_hash_witness:
  "name ann_ticket = name ann_bare
   \<and> User_hash example_hash ann_ticket = User_hash example_hash ann_bare
   \<and> (same_element example_hash ann_ticket ann_bare
        \<longleftrightarrow> email ann_ticket = email ann_bare \<and> launchpad_id ann_ticket = launchpad_id ann_bare)"
proof -
  have h: "name ann_ticket = name ann_bare"
    by (simp add: ann_ticket_def ann_bare_def)
  show ?thesis using h same_name_same_hash [OF h, of example_hash] by simp
qed

section \<open>Group change results\<close>

text \<open>
  C10. \<open>has_failures\<close> is true exactly when the list of failures is empty: true on a
  fresh result, false as soon as a failure has been added.
\<close>

theorem has_failures_inverted:
  "(has_failures r \<longleftrightarrow> failed r = [])
   \<and> has_failures (new_result g)
   \<and> \<not> has_failures (add_failure r user reason)"
  by (simp add: has_failures_def new_result_def add_failure_def)

section \<open>Resolving users\<close>

lemma lookup_user_eq:
  "lookup_user rm user =
     (if email user \<noteq> None then by_mail rm (email user) else by_cn rm (name user))"
  by (simp add: lookup_user_def get_identity_attribute_def ATTR_MAIL_def ATTR_LAUNCHPAD_ID_def)

lemma resolve_loop_unmatched:
  "user \<in> set users \<Longrightarrow> lookup_user rm user = None \<Longrightarrow>
   resolve_loop rm users acc = Inl AttributeError"
  by (induction users arbitrary: acc) (auto split: option.splits)

lemma resolve_loop_matched:
  "\<forall>user \<in> set input. lookup_user rm user \<noteq> None \<Longrightarrow>
   \<exists>resolved. resolve_loop rm input acc = Inr resolved
     \<and> set resolved = set acc \<union> {u. \<exists>user \<in> set input. resolved_identity rm user = Some u}"
proof (induction input arbitrary: acc)
  case Nil
  show ?case by simp
next
  case (Cons a input)
  from Cons.prems obtain result where r: "lookup_user rm a = Some result" by auto
  let ?u = "\<lparr>name = cn result, email = mail result, launchpad_id = launchpadId result\<rparr>"
  have ri: "resolved_identity rm a = Some ?u" using r by (simp add: resolved_identity_def)
  from Cons.prems have "\<forall>user \<in> set input. lookup_user rm user \<noteq> None" by simp
  from Cons.IH [OF this, of "set_add ?u acc"] obtain resolved where
    res: "resolve_loop rm input (set_add ?u acc) = Inr resolved" and
    st: "set resolved = set (set_add ?u acc)
        \<union> {u. \<exists>user \<in> set input. resolved_identity rm user = Some u}"
    by blast
  have "resolve_loop rm (a # input) acc = Inr resolved" using r res by simp
  moreover have "set resolved =
      set acc \<union> {u. \<exists>user \<in> set (a # input). resolved_identity rm user = Some u}"
    using st ri by (auto simp: set_add_set)
  ultimately show ?case by blast
qed

lemma example_resolve_ann_bob:
  "resolve_users directory_ann_bob [ann_ticket, bob_ticket] =
     ([''(mail=ann@example.com)(mail=bob@example.com)''], Inr [ann_resolved, bob_resolved])"
  by (simp add: resolve_users_def query_users_def directory_ann_bob_def search_ann_bob_def ann_ticket_def
      bob_ticket_def is_fully_resolved_def get_filter_parameter_def build_results_map_def
      index_entry_def lookup_user_def get_identity_attribute_def ATTR_MAIL_def
      ATTR_LAUNCHPAD_ID_def ann_entry_def bob_entry_def set_add_def ann_resolved_def
      bob_resolved_def)

lemma resolve_loop_consistent:
  "\<forall>u \<in> set input. resolved_identity rm u = Some u \<Longrightarrow>
   resolve_loop rm input acc = Inr (fold set_add input acc)"
proof (induction input arbitrary: acc)
  case Nil
  show ?case by simp
next
  case (Cons a input)
  from Cons.prems have a: "resolved_identity rm a = Some a" by simp
  then obtain result where r: "lookup_user rm a = Some result"
    and e: "\<lparr>name = cn result, email = mail result, launchpad_id = launchpadId result\<rparr> = a"
    by (auto simp: resolved_identity_def split: option.splits)
  from Cons.prems have "\<forall>u \<in> set input. resolved_identity rm u = Some u" by simp
  from Cons.IH [OF this] show ?case using r e by simp
qed

lemma query_consistent:
  assumes "input \<noteq> []" "bind ldap = None"
    "search ldap (concat (map get_filter_parameter input)) = Inr entries" "entries \<noteq> []"
    "\<forall>u \<in> set input. resolved_identity (build_results_map entries) u = Some u"
  shows "snd (query_users ldap input) = Inr (set_of input)"
  using assms resolve_loop_consistent [OF assms(5), of "[]"]
  by (simp add: query_users_def set_of_def set_update_def)

text \<open>
  C7. The claim: for fully resolved users the input is returned unchanged, no search is
  sent, and the fast path is transparent. On the code the fast path is not transparent in
  general: it keeps the values of the input, and the directory part takes the values of
  the directory. The fully resolved \<open>ann_stale\<close> comes back unchanged when resolved alone;
  asking the directory for her, or resolving her beside the unresolved bob, gives the
  identity of her directory record instead, which has another name.
\<close>

theorem fast_path_counterexample:
  "list_all is_fully_resolved [ann_stale]
   \<and> resolve_users directory_ann_bob [ann_stale] = ([], Inr [ann_stale])
   \<and> query_users directory_ann_bob [ann_stale] =
       ([''(mail=ann@example.com)''], Inr [ann_resolved])
   \<and> resolve_users directory_ann_bob [ann_stale, bob_ticket] =
       ([''(mail=ann@example.com)(mail=bob@example.com)''], Inr [ann_resolved, bob_resolved])
   \<and> ann_stale \<noteq> ann_resolved
   \<and> ann_stale \<noteq> bob_resolved"
  by (simp add: resolve_users_def query_users_def directory_ann_bob_def search_ann_bob_def
      ann_stale_def bob_ticket_def is_fully_resolved_def get_filter_parameter_def
      build_results_map_def index_entry_def lookup_user_def get_identity_attribute_def
      ATTR_MAIL_def ATTR_LAUNCHPAD_ID_def ann_entry_def bob_entry_def set_add_def
      set_of_def set_update_def ann_resolved_def bob_resolved_def)

text \<open>
  C7, as amended: when every input user is fully resolved, \<open>resolve_users\<close> sends no
  search to the directory and returns the set of the input users (the same elements, and
  the very same list when the input has no repetition). The fast path is transparent
  when the directory agrees with the input: if the search for these users returns
  records that give every user its own name, email and launchpad id, the directory part
  returns the same set.
\<close>

theorem fast_path:
  assumes "list_all is_fully_resolved input"
  shows "resolve_users ldap input = ([], Inr (set_of input))
     \<and> set (set_of input) = set input
     \<and> (distinct input \<longrightarrow> set_of input = input)
     \<and> (input \<noteq> [] \<and> bind ldap = None
        \<and> search ldap (concat (map get_filter_parameter input)) = Inr entries
        \<and> entries \<noteq> []
        \<and> (\<forall>user \<in> set input.
              resolved_identity (build_results_map entries) user = Some user)
        \<longrightarrow> snd (query_users ldap input) = snd (resolve_users ldap input))"
proof -
  have r: "resolve_users ldap input = ([], Inr (set_of input))"
    using assms by (cases input) (simp_all add: resolve_users_def set_of_def set_update_def)
  have "snd (query_users ldap input) = snd (resolve_users ldap input)"
    if "input \<noteq> [] \<and> bind ldap = None
        \<and> search ldap (concat (map get_filter_parameter input)) = Inr entries
        \<and> entries \<noteq> []
        \<and> (\<forall>user \<in> set input.
              resolved_identity (build_results_map entries) user = Some user)"
    using that query_consistent [of input ldap entries] r by simp
  then show ?thesis using r by (simp add: set_of_set set_of_id)
qed

theorem fast_path_witness:
  "list_all is_fully_resolved [ann_resolved, bob_resolved]
   \<and> distinct [ann_resolved, bob_resolved]
   \<and> resolve_users directory_ann_bob [ann_resolved, bob_resolved] =
       ([], Inr [ann_resolved, bob_resolved])
   \<and> bind directory_ann_bob = None
   \<and> search directory_ann_bob (concat (map get_filter_parameter [ann_resolved, bob_resolved])) =
       Inr [ann_entry, bob_entry]
   \<and> resolved_identity (build_results_map [ann_entry, bob_entry]) ann_resolved =
       Some ann_resolved
   \<and> resolved_identity (build_results_map [ann_entry, bob_entry]) bob_resolved =
       Some bob_resolved
   \<and> snd (query_users directory_ann_bob [ann_resolved, bob_resolved]) =
       Inr [ann_resolved, bob_resolved]"
proof -
  have h: "list_all is_fully_resolved [ann_resolved, bob_resolved]"
    by (simp add: is_fully_resolved_def ann_resolved_def bob_resolved_def)
  have d: "distinct [ann_resolved, bob_resolved]"
    by (simp add: ann_resolved_def bob_resolved_def)
  have b: "bind directory_ann_bob = None"
    by (simp add: directory_ann_bob_def)
  have f: "concat (map get_filter_parameter [ann_resolved, bob_resolved]) =
      ''(mail=ann@example.com)(mail=bob@example.com)''"
    by (simp add: get_filter_parameter_def ann_resolved_def bob_resolved_def)
  have q: "search directory_ann_bob
      (concat (map get_filter_parameter [ann_resolved, bob_resolved])) =
      Inr [ann_entry, bob_entry]"
    unfolding f by (simp add: directory_ann_bob_def search_ann_bob_def)
  have ia: "resolved_identity (build_results_map [ann_entry, bob_entry]) ann_resolved =
      Some ann_resolved"
    by (simp add: resolved_identity_def lookup_user_eq build_results_map_def index_entry_def
        ann_resolved_def ann_entry_def bob_entry_def)
  have ib: "resolved_identity (build_results_map [ann_entry, bob_entry]) bob_resolved =
      Some bob_resolved"
    by (simp add: resolved_identity_def lookup_user_eq build_results_map_def index_entry_def
        bob_resolved_def ann_entry_def bob_entry_def)
  have fast: "resolve_users directory_ann_bob [ann_resolved, bob_resolved] =
      ([], Inr (set_of [ann_resolved, bob_resolved]))"
    and same: "set_of [ann_resolved, bob_resolved] = [ann_resolved, bob_resolved]"
    and query: "snd (query_users directory_ann_bob [ann_resolved, bob_resolved]) =
      snd (resolve_users directory_ann_bob [ann_resolved, bob_resolved])"
    using fast_path [OF h, of directory_ann_bob "[ann_entry, bob_entry]"] d b q ia ib
    by simp_all
  show ?thesis using h d b q ia ib fast same query by simp
qed

text \<open>
  C8. When some input user is not fully resolved, the connection is bound and the one
  combined search returns no entry, \<open>resolve_users\<close> raises (a plain \<^verbatim>\<open>Exception\<close>, which
  is the directory failure of the specification) after that single search; no set is
  returned.
\<close>

theorem zero_records_fail:
  assumes "\<not> list_all is_fully_resolved input"
    and "bind ldap = None"
    and "search ldap (concat (map get_filter_parameter input)) = Inr []"
  shows "resolve_users ldap input =
     ([concat (map get_filter_parameter input)], Inl Exception)"
  using assms by (cases input) (simp_all add: resolve_users_def query_users_def)

theorem zero_records_fail_witness:
  "\<not> list_all is_fully_resolved [ann_ticket]
   \<and> bind directory_empty = None
   \<and> search directory_empty (concat (map get_filter_parameter [ann_ticket])) = Inr []
   \<and> resolve_users directory_empty [ann_ticket] = ([''(mail=ann@example.com)''], Inl Exception)"
proof -
  have h1: "\<not> list_all is_fully_resolved [ann_ticket]"
    by (simp add: is_fully_resolved_def ann_ticket_def)
  have h2: "bind directory_empty = None"
    by (simp add: directory_empty_def)
  have h3: "search directory_empty (concat (map get_filter_parameter [ann_ticket])) = Inr []"
    by (simp add: directory_empty_def search_nothing_def)
  have f: "concat (map get_filter_parameter [ann_ticket]) = ''(mail=ann@example.com)''"
    by (simp add: get_filter_parameter_def ann_ticket_def)
  show ?thesis using h1 h2 h3 zero_records_fail [OF h1 h2 h3] unfolding f by simp
qed

text \<open>
  C2. The claim: a user is looked up by email when it has one, otherwise by launchpad id
  when it has one, otherwise by name. The code is wrong here: \<^verbatim>\<open>attr\<close> holds the
  result of the comparison with \<^verbatim>\<open>ATTR_MAIL\<close>, so the branch for the launchpad id is never
  taken and a user without email is looked up by name. For bob, known by his launchpad
  id only, the filter parameter asks for the launchpad id and the directory answers with
  his entry, which the index by launchpad id holds; the lookup goes to the index by name,
  finds nothing under \<open>bob\<close>, and the activity raises \<^verbatim>\<open>AttributeError\<close>.
\<close>

theorem lookup_by_launchpad_id_missed:
  "get_filter_parameter bob_by_id = ''(launchpadId=bob-lp)''
   \<and> search directory_ann_bob ''(launchpadId=bob-lp)'' = Inr [bob_entry]
   \<and> by_launchpad_id (build_results_map [bob_entry]) (launchpad_id bob_by_id) = Some bob_entry
   \<and> lookup_user (build_results_map [bob_entry]) bob_by_id = None
   \<and> resolve_users directory_ann_bob [bob_by_id] =
       ([''(launchpadId=bob-lp)''], Inl AttributeError)"
  by (simp add: resolve_users_def query_users_def directory_ann_bob_def search_ann_bob_def
      bob_by_id_def is_fully_resolved_def get_filter_parameter_def build_results_map_def
      index_entry_def lookup_user_def get_identity_attribute_def ATTR_MAIL_def
      ATTR_LAUNCHPAD_ID_def bob_entry_def)

text \<open>
  C9. The claim: a user without a matching record in a non-empty result does not make
  the resolution fail, and is dropped from the returned set. On the code the resolution
  fails: the directory knows ann only, bob's lookup finds nothing, and the activity
  raises \<^verbatim>\<open>AttributeError\<close> instead of returning the set without bob.
\<close>

theorem unmatched_user_counterexample:
  "search directory_ann (concat (map get_filter_parameter [ann_ticket, bob_ticket])) =
     Inr [ann_entry]
   \<and> lookup_user (build_results_map [ann_entry]) ann_ticket = Some ann_entry
   \<and> lookup_user (build_results_map [ann_entry]) bob_ticket = None
   \<and> snd (resolve_users directory_ann [ann_ticket, bob_ticket]) = Inl AttributeError"
  by (simp add: resolve_users_def query_users_def directory_ann_def search_ann_def ann_ticket_def
      bob_ticket_def is_fully_resolved_def get_filter_parameter_def build_results_map_def
      index_entry_def lookup_user_def get_identity_attribute_def ATTR_MAIL_def
      ATTR_LAUNCHPAD_ID_def ann_entry_def set_add_def)

text \<open>
  C9, as amended: with a non-empty result of the combined search, the resolution returns
  a set only when every input user finds a record (in the index the lookup consults for
  that user), and the set then holds exactly the identities built from those records;
  when some input user finds no record no set is returned, the activity fails. No user
  is dropped silently.
\<close>

theorem unmatched_user_not_dropped:
  assumes "\<not> list_all is_fully_resolved input"
    and "bind ldap = None"
    and "search ldap (concat (map get_filter_parameter input)) = Inr entries"
    and "entries \<noteq> []"
  shows "((\<exists>user \<in> set input. lookup_user (build_results_map entries) user = None) \<longrightarrow>
           snd (resolve_users ldap input) = Inl AttributeError)
     \<and> ((\<forall>user \<in> set input. lookup_user (build_results_map entries) user \<noteq> None) \<longrightarrow>
           (\<exists>resolved. snd (resolve_users ldap input) = Inr resolved
              \<and> set resolved =
                  {u. \<exists>user \<in> set input.
                        resolved_identity (build_results_map entries) user = Some u}))"
proof -
  let ?rm = "build_results_map entries"
  have "input \<noteq> []" using assms(1) by auto
  then have run: "snd (resolve_users ldap input) = resolve_loop ?rm input []"
    using assms by (simp add: resolve_users_def query_users_def)
  show ?thesis
  proof (intro conjI impI)
    assume "\<exists>user \<in> set input. lookup_user ?rm user = None"
    then show "snd (resolve_users ldap input) = Inl AttributeError"
      unfolding run using resolve_loop_unmatched by blast
  next
    assume "\<forall>user \<in> set input. lookup_user ?rm user \<noteq> None"
    from resolve_loop_matched [OF this, of "[]"]
    show "\<exists>resolved. snd (resolve_users ldap input) = Inr resolved
              \<and> set resolved =
                  {u. \<exists>user \<in> set input. resolved_identity ?rm user = Some u}"
      unfolding run by simp
  qed
qed

theorem unmatched_user_not_dropped_witness:
  "lookup_user (build_results_map [ann_entry]) bob_ticket = None
   \<and> snd (resolve_users directory_ann [ann_ticket, bob_ticket]) = Inl AttributeError
   \<and> lookup_user (build_results_map [ann_entry, bob_entry]) ann_ticket = Some ann_entry
   \<and> lookup_user (build_results_map [ann_entry, bob_entry]) bob_ticket = Some bob_entry
   \<and> snd (resolve_users directory_ann_bob [ann_ticket, bob_ticket]) =
       Inr [ann_resolved, bob_resolved]
   \<and> resolved_identity (build_results_map [ann_entry, bob_entry]) ann_ticket = Some ann_resolved
   \<and> resolved_identity (build_results_map [ann_entry, bob_entry]) bob_ticket = Some bob_resolved"
proof -
  have h1: "\<not> list_all is_fully_resolved [ann_ticket, bob_ticket]"
    by (simp add: is_fully_resolved_def ann_ticket_def)
  have f: "concat (map get_filter_parameter [ann_ticket, bob_ticket]) =
      ''(mail=ann@example.com)(mail=bob@example.com)''"
    by (simp add: get_filter_parameter_def ann_ticket_def bob_ticket_def)
  have a2: "bind directory_ann = None"
    by (simp add: directory_ann_def)
  have a3: "search directory_ann (concat (map get_filter_parameter [ann_ticket, bob_ticket])) =
      Inr [ann_entry]"
    unfolding f by (simp add: directory_ann_def search_ann_def)
  have a4: "[ann_entry] \<noteq> []" by simp
  have a5: "bob_ticket \<in> set [ann_ticket, bob_ticket]" by simp
  have a6: "lookup_user (build_results_map [ann_entry]) bob_ticket = None"
    by (simp add: lookup_user_eq build_results_map_def index_entry_def bob_ticket_def
        ann_entry_def)
  have fails: "snd (resolve_users directory_ann [ann_ticket, bob_ticket]) = Inl AttributeError"
    using unmatched_user_not_dropped [OF h1 a2 a3 a4] a5 a6 by blast
  have b2: "bind directory_ann_bob = None"
    by (simp add: directory_ann_bob_def)
  have b3: "search directory_ann_bob
      (concat (map get_filter_parameter [ann_ticket, bob_ticket])) = Inr [ann_entry, bob_entry]"
    unfolding f by (simp add: directory_ann_bob_def search_ann_bob_def)
  have b4: "[ann_entry, bob_entry] \<noteq> []" by simp
  have la: "lookup_user (build_results_map [ann_entry, bob_entry]) ann_ticket = Some ann_entry"
    by (simp add: lookup_user_eq build_results_map_def index_entry_def ann_ticket_def
        ann_entry_def bob_entry_def)
  have lb: "lookup_user (build_results_map [ann_entry, bob_entry]) bob_ticket = Some bob_entry"
    by (simp add: lookup_user_eq build_results_map_def index_entry_def bob_ticket_def
        ann_entry_def bob_entry_def)
  have b5: "\<forall>user \<in> set [ann_ticket, bob_ticket].
      lookup_user (build_results_map [ann_entry, bob_entry]) user \<noteq> None"
    using la lb by simp
  have ia: "resolved_identity (build_results_map [ann_entry, bob_entry]) ann_ticket =
      Some ann_resolved"
    unfolding resolved_identity_def la by (simp add: ann_entry_def ann_resolved_def)
  have ib: "resolved_identity (build_results_map [ann_entry, bob_entry]) bob_ticket =
      Some bob_resolved"
    unfolding resolved_identity_def lb by (simp add: bob_entry_def bob_resolved_def)
  have ret: "snd (resolve_users directory_ann_bob [ann_ticket, bob_ticket]) =
      Inr [ann_resolved, bob_resolved]"
    by (simp add: example_resolve_ann_bob)
  have "set [ann_resolved, bob_resolved] =
      {u. \<exists>user \<in> set [ann_ticket, bob_ticket].
            resolved_identity (build_results_map [ann_entry, bob_entry]) user = Some u}"
    using unmatched_user_not_dropped [OF h1 b2 b3 b4] b5 unfolding ret by blast
  then show ?thesis using a6 fails la lb ret ia ib by blast
qed

section \<open>Adding users to a group\<close>










lemma example_grant_ann_bob:
  "add_users_to_group example_launchpad ''pc5a-infra'' [ann_resolved, bob_resolved] =
     Inr \<lparr>group = ''pc5a-infra'', success = [ann_resolved, bob_resolved], failed = []\<rparr>"
  by (simp add: add_users_to_group_def example_launchpad_def example_people_def
      example_addMember_def new_result_def try_user_def ann_resolved_def bob_resolved_def
      check_memberships_def add_success_def add_failure_def)











section \<open>Access requirements from the tickets\<close>

lemma dict_set_map_of: "map_of (dict_set k v d) = (map_of d)(k \<mapsto> v)"
  by (induction d) (auto simp: fun_eq_iff)

lemma dict_set_keys: "fst ` set (dict_set k v d) = insert k (fst ` set d)"
proof (induction d)
  case Nil
  show ?case by simp
next
  case (Cons a d)
  then show ?case by (cases a) auto
qed

lemma dict_set_distinct: "distinct (map fst d) \<Longrightarrow> distinct (map fst (dict_set k v d))"
  by (induction d) (auto simp: dict_set_keys)

lemma dict_set_fresh: "k \<notin> fst ` set d \<Longrightarrow> dict_set k v d = d @ [(k, v)]"
  by (induction d) auto

lemma update_users_get:
  "set (dict_get (update_users r us m) r' []) =
     set (dict_get m r' []) \<union> (if r' = r then set us else {})"
  by (auto simp: update_users_def dict_get_def dict_set_map_of set_update_set
           split: option.splits)

lemma update_users_keys: "fst ` set (update_users r us m) = insert r (fst ` set m)"
  by (simp add: update_users_def dict_set_keys)

lemma update_users_distinct:
  "distinct (map fst m) \<Longrightarrow> distinct (map fst (update_users r us m))"
  by (simp add: update_users_def dict_set_distinct)

lemma layer_resources_Nil: "layer_resources cloud infra k [] = {}"
  by (simp add: layer_resources_def)

lemma layer_resources_Cons:
  "layer_resources cloud infra k (i # ints) =
     (if i = ''Infrastructure'' then {infra} else {})
     \<union> (if i = ''Platform'' then {OpenStackProject (lower k) None cloud} else {})
     \<union> layer_resources cloud infra k ints"
  unfolding layer_resources_def
  by (cases "i = ''Infrastructure''"; cases "i = ''Platform''") auto

lemma integrations_loop_get:
  "set (dict_get (integrations_loop cloud infra k us ints m) r []) =
     set (dict_get m r []) \<union> (if r \<in> layer_resources cloud infra k ints then set us else {})"
proof (induction ints arbitrary: m)
  case Nil
  show ?case by (simp add: layer_resources_Nil)
next
  case (Cons i ints)
  show ?case
    unfolding integrations_loop.simps layer_resources_Cons
    by (simp only: Cons.IH update_users_get split: if_splits) auto
qed

lemma integrations_loop_keys:
  "fst ` set (integrations_loop cloud infra k us ints m) =
     fst ` set m \<union> layer_resources cloud infra k ints"
proof (induction ints arbitrary: m)
  case Nil
  show ?case by (simp add: layer_resources_Nil)
next
  case (Cons i ints)
  show ?case
    unfolding integrations_loop.simps layer_resources_Cons
    by (simp only: Cons.IH update_users_keys split: if_splits) auto
qed

lemma integrations_loop_distinct:
  "distinct (map fst m) \<Longrightarrow> distinct (map fst (integrations_loop cloud infra k us ints m))"
  by (induction ints arbitrary: m) (simp_all add: update_users_distinct)

lemma UN_filter_Cons:
  "(\<Union>i \<in> {i \<in> set (a # xs). P i}. f i) =
     (if P a then f a else {}) \<union> (\<Union>i \<in> {i \<in> set xs. P i}. f i)"
  by auto

lemma issues_loop_get:
  "issues_loop jira cloud infra issues m = Inr m' \<Longrightarrow>
   set (dict_get m' r []) =
     set (dict_get m r [])
     \<union> (\<Union>i \<in> {i \<in> set issues. actionable jira i \<and> r \<in> issue_resources cloud infra i}.
          set (issue_users i))"
proof (induction issues arbitrary: m)
  case Nil
  then show ?case by simp
next
  case (Cons a issues)
  show ?case
  proof (cases "actionable jira a")
    case False
    with Cons.prems have "issues_loop jira cloud infra issues m = Inr m'"
      by (auto simp: actionable_def split: if_splits sum.splits)
    from Cons.IH [OF this] False show ?thesis
      unfolding UN_filter_Cons by simp
  next
    case True
    then obtain us where us: "convert_users (jira_users a) = Inr us"
      and loop: "issues_loop jira cloud infra issues
          (integrations_loop cloud infra (key a) us (integrations a) m) = Inr m'"
      using Cons.prems by (auto simp: actionable_def split: if_splits sum.splits)
    have iu: "issue_users a = us" using us by (simp add: issue_users_def)
    from Cons.IH [OF loop] True iu show ?thesis
      unfolding UN_filter_Cons
      by (simp add: integrations_loop_get issue_resources_def Un_assoc)
  qed
qed

lemma issues_loop_distinct:
  "issues_loop jira cloud infra issues m = Inr m' \<Longrightarrow> distinct (map fst m) \<Longrightarrow>
   distinct (map fst m')"
proof (induction issues arbitrary: m)
  case Nil
  then show ?case by simp
next
  case (Cons a issues)
  from Cons.prems Cons.IH show ?case
    by (auto simp: integrations_loop_distinct split: if_splits sum.splits)
qed

lemma fold_names_fresh:
  "distinct (map fst acc @ map resource_name (map fst d)) \<Longrightarrow>
   fold (\<lambda>(resource, users) m. dict_set (resource_name resource) users m) d acc =
     acc @ map (\<lambda>(r, u). (resource_name r, u)) d"
proof (induction d arbitrary: acc)
  case Nil
  show ?case by simp
next
  case (Cons x d)
  obtain r u where x: "x = (r, u)" by (cases x)
  have fresh: "resource_name r \<notin> fst ` set acc" using Cons.prems x by auto
  have "distinct (map fst (acc @ [(resource_name r, u)]) @ map resource_name (map fst d))"
    using Cons.prems x by auto
  from Cons.IH [OF this] show ?case
    using x by (simp add: dict_set_fresh [OF fresh])
qed

lemma fold_resources_fresh:
  "distinct (map fst acc @ rs) \<Longrightarrow>
   fold (\<lambda>resource mapping. dict_set resource (g resource) mapping) rs acc =
     acc @ map (\<lambda>r. (r, g r)) rs"
proof (induction rs arbitrary: acc)
  case Nil
  show ?case by simp
next
  case (Cons r rs)
  have fresh: "r \<notin> fst ` set acc" using Cons.prems by auto
  have "distinct (map fst (acc @ [(r, g r)]) @ rs)" using Cons.prems by auto
  from Cons.IH [OF this] show ?case by (simp add: dict_set_fresh [OF fresh])
qed

lemma to_map_from_map:
  assumes "distinct (map resource_name (map fst d))"
  shows "to_map (from_map d) = d"
proof -
  let ?um = "map (\<lambda>(r, u). (resource_name r, u)) d"
  have um: "user_map (from_map d) = ?um"
    using fold_names_fresh [of "[]" d] assms by (simp add: from_map_def)
  have dr: "distinct (map fst d)"
    using assms distinct_map [of resource_name "map fst d"] by blast
  have e: "map fst ?um = map resource_name (map fst d)"
    by (induction d) auto
  have dn: "distinct (map fst ?um)"
    unfolding e by (rule assms)
  have get: "dict_get ?um (resource_name (fst x)) [] = snd x" if "x \<in> set d" for x
  proof -
    have "(resource_name (fst x), snd x) \<in> set ?um" using that by force
    from map_of_is_SomeI [OF dn this] show ?thesis by (simp add: dict_get_def)
  qed
  have "to_map (from_map d) =
      map (\<lambda>r. (r, dict_get ?um (resource_name r) [])) (map fst d)"
    using fold_resources_fresh [of "[]" "map fst d"] dr um
    by (simp add: to_map_def from_map_def)
  also have "\<dots> = d"
    using get by (simp add: map_idI)
  finally show ?thesis .
qed

lemma example_access_42_43:
  "get_access_for_current_sprint example_conf jira_42_43 ''PC5a'' =
     Inr access_42_43"
  by (simp add: get_access_for_current_sprint_def jira_42_43_def sprint_42_43_def
      example_conf_def CONF_get_def issue_42_def issue_43_def is_issue_completed_def
      get_pending_prerequisite_issues_def jira_users_def convert_user_def jira_ann_def
      jira_bob_def jira_carol_def integrations_def update_users_def dict_get_def
      set_update_def set_add_def from_map_def example_infra_node_def ann_ticket_def
      bob_ticket_def carol_ticket_def access_42_43_def)

lemma example_access_42:
  "get_access_for_current_sprint example_conf jira_42 ''PC5a'' =
     Inr \<lparr>resources = [example_infra_node],
          user_map = [(''PC5a-infra-node'', [ann_ticket, bob_ticket])]\<rparr>"
  by (simp add: get_access_for_current_sprint_def jira_42_def sprint_42_def
      example_conf_def CONF_get_def issue_42_def is_issue_completed_def
      get_pending_prerequisite_issues_def jira_users_def convert_user_def jira_ann_def
      jira_bob_def integrations_def update_users_def dict_get_def
      set_update_def set_add_def from_map_def example_infra_node_def ann_ticket_def
      bob_ticket_def)

lemma example_grant_tasks:
  "grant_tasks example_env ''partner-cloud'' ''PC5a'' =
     Inr [Inr \<lparr>group = ''pc5a-infra'', success = [ann_resolved, bob_resolved], failed = []\<rparr>]"
proof -
  have cfg: "CONF_get example_conf ''PC5a'' =
      Inr \<lparr>config_name = ''PC5a'', infra_group = ''pc5a-infra'',
           user_group = ''pc5a-users'', infra_node_ip = ''10.0.0.1''\<rparr>"
    by (simp add: example_conf_def CONF_get_def)
  have tm: "to_map \<lparr>resources = [example_infra_node],
          user_map = [(''PC5a-infra-node'', [ann_ticket, bob_ticket])]\<rparr> =
        [(example_infra_node, [ann_ticket, bob_ticket])]"
    by (simp add: to_map_def dict_get_def example_infra_node_def)
  have cl: "clouds example_conf = [''PC5a'']"
    by (simp add: example_conf_def)
  have kind: "is_InfraNode example_infra_node" "\<not> is_OpenStackProject example_infra_node"
    by (simp_all add: example_infra_node_def)
  show ?thesis
    by (simp add: grant_tasks_def example_env_def cl cfg example_access_42 tm
        example_resolve_ann_bob example_grant_ann_bob kind)
qed

text \<open>
  C4. The claim: a null assignee is dropped without an error, and the users of the ticket
  are its collaborators alone. The code is wrong here: the null assignee is appended to
  the collaborators and \<open>convert_user\<close> reads its display name, so for a ticket that is
  acted upon and has no assignee the activity raises \<^verbatim>\<open>AttributeError\<close> (the sibling
  fields are guarded by \<^verbatim>\<open>or []\<close>, the assignee is not).
\<close>

theorem null_assignee_raises:
  "assignee issue_unassigned = None
   \<and> actionable jira_unassigned issue_unassigned
   \<and> get_issues_for_current_sprint jira_unassigned ''PC5a'' = Inr [issue_unassigned]
   \<and> get_access_for_current_sprint example_conf jira_unassigned ''PC5a'' = Inl AttributeError"
  by (simp add: get_access_for_current_sprint_def jira_unassigned_def sprint_unassigned_def
      example_conf_def CONF_get_def issue_unassigned_def is_issue_completed_def
      get_pending_prerequisite_issues_def jira_users_def convert_user_def jira_ann_def
      actionable_def)

lemma issues_loop_keys:
  "issues_loop jira cloud infra issues m = Inr m' \<Longrightarrow>
   fst ` set m' \<subseteq> fst ` set m \<union> (\<Union>i \<in> set issues. issue_resources cloud infra i)"
proof (induction issues arbitrary: m)
  case Nil
  then show ?case by auto
next
  case (Cons a issues)
  show ?case
  proof (cases "actionable jira a")
    case False
    with Cons.prems have "issues_loop jira cloud infra issues m = Inr m'"
      by (auto simp: actionable_def split: if_splits sum.splits)
    from Cons.IH [OF this] show ?thesis by auto
  next
    case True
    then obtain us where
      loop: "issues_loop jira cloud infra issues
          (integrations_loop cloud infra (key a) us (integrations a) m) = Inr m'"
      using Cons.prems by (auto simp: actionable_def split: if_splits sum.splits)
    from Cons.IH [OF loop] show ?thesis
      by (auto simp: integrations_loop_keys issue_resources_def)
  qed
qed

lemma issue_resources_cases:
  "r \<in> issue_resources cloud infra i \<Longrightarrow>
   r = infra \<or> r = OpenStackProject (lower (key i)) None cloud"
  by (auto simp: issue_resources_def layer_resources_def split: if_splits)

lemma names_distinct:
  assumes loop: "issues_loop jira cloud (InfraNode n ip) issues [] = Inr m"
    and keys: "\<forall>i \<in> set issues. lower (key i) \<noteq> n"
  shows "distinct (map resource_name (map fst m))"
proof -
  have d: "distinct (map fst m)" using issues_loop_distinct [OF loop] by simp
  have sub: "fst ` set m \<subseteq> (\<Union>i \<in> set issues. issue_resources cloud (InfraNode n ip) i)"
    using issues_loop_keys [OF loop] by simp
  have "inj_on resource_name (fst ` set m)"
  proof (rule inj_onI)
    fix x y
    assume x: "x \<in> fst ` set m" and y: "y \<in> fst ` set m"
      and e: "resource_name x = resource_name y"
    from x sub obtain i where i: "i \<in> set issues"
      "x = InfraNode n ip \<or> x = OpenStackProject (lower (key i)) None cloud"
      using issue_resources_cases by blast
    from y sub obtain j where j: "j \<in> set issues"
      "y = InfraNode n ip \<or> y = OpenStackProject (lower (key j)) None cloud"
      using issue_resources_cases by blast
    from i j e keys show "x = y" by auto
  qed
  then show ?thesis using d distinct_map [of resource_name "map fst m"] by simp
qed

lemma access_union_names:
  assumes "get_issues_for_current_sprint jira cloud = Inr issues"
    and "CONF_get conf cloud = Inr config"
    and "get_access_for_current_sprint conf jira cloud = Inr access"
    and "distinct (map resource_name (resources access))"
  shows "distinct (map fst (to_map access))
     \<and> (\<forall>resource.
          set (dict_get (to_map access) resource []) =
            (\<Union>issue \<in> {i \<in> set issues. actionable jira i
                  \<and> resource \<in> issue_resources cloud
                      (InfraNode (cloud @ ''-infra-node'') (infra_node_ip config)) i}.
               set (issue_users issue)))"
proof -
  let ?infra = "InfraNode (cloud @ ''-infra-node'') (infra_node_ip config)"
  from assms(1-3) obtain m where
    loop: "issues_loop jira cloud ?infra issues [] = Inr m" and
    acc: "access = from_map m"
    by (auto simp: get_access_for_current_sprint_def split: sum.splits)
  have "distinct (map resource_name (map fst m))"
    using assms(4) acc by (simp add: from_map_def)
  then have tm: "to_map access = m" using acc to_map_from_map by simp
  have d: "distinct (map fst m)" using issues_loop_distinct [OF loop] by simp
  show ?thesis
    using issues_loop_get [OF loop] d tm by (simp add: dict_get_def)
qed

text \<open>
  C6. In a run that returns, the output map has one entry per resource, and the user set
  of every resource is the union of the user sets of all the issues that are acted upon
  and ask for that resource: two tickets that both ask for the infrastructure node of the
  cloud give one entry whose users are the users of both. \<open>AccessResult\<close> keys the user
  sets by resource name, so the statement is for issue keys that do not spell the name of
  the infrastructure node, \<^verbatim>\<open><cloud>-infra-node\<close>, in upper case (an issue key ends in the
  issue's number).
\<close>

theorem access_is_union:
  assumes "get_issues_for_current_sprint jira cloud = Inr issues"
    and "CONF_get conf cloud = Inr config"
    and "get_access_for_current_sprint conf jira cloud = Inr access"
    and "\<forall>issue \<in> set issues. lower (key issue) \<noteq> cloud @ ''-infra-node''"
  shows "distinct (map fst (to_map access))
     \<and> (\<forall>resource.
          set (dict_get (to_map access) resource []) =
            (\<Union>issue \<in> {i \<in> set issues. actionable jira i
                  \<and> resource \<in> issue_resources cloud
                      (InfraNode (cloud @ ''-infra-node'') (infra_node_ip config)) i}.
               set (issue_users issue)))"
proof -
  let ?infra = "InfraNode (cloud @ ''-infra-node'') (infra_node_ip config)"
  from assms(1-3) obtain m where
    loop: "issues_loop jira cloud ?infra issues [] = Inr m" and
    acc: "access = from_map m"
    by (auto simp: get_access_for_current_sprint_def split: sum.splits)
  have "distinct (map resource_name (map fst m))"
    using names_distinct [OF loop assms(4)] .
  then have "distinct (map resource_name (resources access))"
    using acc by (simp add: from_map_def)
  from access_union_names [OF assms(1-3) this] show ?thesis .
qed

theorem access_is_union_witness:
  "get_issues_for_current_sprint jira_42_43 ''PC5a'' = Inr [issue_42, issue_43]
   \<and> get_access_for_current_sprint example_conf jira_42_43 ''PC5a'' = Inr access_42_43
   \<and> lower (key issue_42) \<noteq> ''PC5a'' @ ''-infra-node''
   \<and> lower (key issue_43) \<noteq> ''PC5a'' @ ''-infra-node''
   \<and> distinct (map fst (to_map access_42_43))
   \<and> set (issue_users issue_42) = {ann_ticket, bob_ticket}
   \<and> set (issue_users issue_43) = {carol_ticket, ann_ticket}
   \<and> set (dict_get (to_map access_42_43) example_infra_node []) =
       set (issue_users issue_42) \<union> set (issue_users issue_43)"
proof -
  let ?cfg = "\<lparr>config_name = ''PC5a'', infra_group = ''pc5a-infra'',
           user_group = ''pc5a-users'', infra_node_ip = ''10.0.0.1''\<rparr>"
  have h1: "get_issues_for_current_sprint jira_42_43 ''PC5a'' = Inr [issue_42, issue_43]"
    by (simp add: jira_42_43_def sprint_42_43_def)
  have h2: "CONF_get example_conf ''PC5a'' = Inr ?cfg"
    by (simp add: example_conf_def CONF_get_def)
  have k42: "lower (key issue_42) \<noteq> ''PC5a'' @ ''-infra-node''"
    by (simp add: lower_def issue_42_def)
  have k43: "lower (key issue_43) \<noteq> ''PC5a'' @ ''-infra-node''"
    by (simp add: lower_def issue_43_def)
  have h4: "\<forall>issue \<in> set [issue_42, issue_43]. lower (key issue) \<noteq> ''PC5a'' @ ''-infra-node''"
    using k42 k43 by simp
  have infra: "InfraNode (''PC5a'' @ ''-infra-node'') (infra_node_ip ?cfg) = example_infra_node"
    by (simp add: example_infra_node_def)
  have a: "actionable jira_42_43 issue_42" "actionable jira_42_43 issue_43"
    by (simp_all add: actionable_def is_issue_completed_def get_pending_prerequisite_issues_def
        issue_42_def issue_43_def)
  have r: "example_infra_node \<in> issue_resources ''PC5a'' example_infra_node issue_42"
      "example_infra_node \<in> issue_resources ''PC5a'' example_infra_node issue_43"
    by (simp_all add: issue_resources_def layer_resources_def integrations_def
        issue_42_def issue_43_def)
  have sel: "{i \<in> set [issue_42, issue_43]. actionable jira_42_43 i
        \<and> example_infra_node \<in> issue_resources ''PC5a'' example_infra_node i} =
      {issue_42, issue_43}"
    using a r by auto
  have u42: "set (issue_users issue_42) = {ann_ticket, bob_ticket}"
    by (simp add: issue_users_def jira_users_def convert_user_def issue_42_def jira_ann_def
        jira_bob_def ann_ticket_def bob_ticket_def)
  have u43: "set (issue_users issue_43) = {carol_ticket, ann_ticket}"
    by (simp add: issue_users_def jira_users_def convert_user_def issue_43_def jira_ann_def
        jira_carol_def ann_ticket_def carol_ticket_def)
  from access_is_union [OF h1 h2 example_access_42_43 h4]
  have d: "distinct (map fst (to_map access_42_43))"
    and "set (dict_get (to_map access_42_43) example_infra_node []) =
      (\<Union>issue \<in> {i \<in> set [issue_42, issue_43]. actionable jira_42_43 i
            \<and> example_infra_node \<in> issue_resources ''PC5a'' example_infra_node i}.
         set (issue_users issue))"
    unfolding infra by blast+
  then have "set (dict_get (to_map access_42_43) example_infra_node []) =
      set (issue_users issue_42) \<union> set (issue_users issue_43)"
    unfolding sel by simp
  then show ?thesis using h1 example_access_42_43 k42 k43 d u42 u43 by simp
qed

section \<open>The workflow\<close>

lemma example_run: "run example_env ''partner-cloud'' ''PC5a'' = Inr (0, 0)"
  by (simp add: run_def example_grant_tasks)

text \<open>
  C1. The claim: the run returns the number of users reported as succeeded and as failed
  by the group changes of the run. On the code the counts are not computed: in the example
  run the one group change reports two users as succeeded and the run returns \<open>(0, 0)\<close>.
\<close>

theorem run_summary_counterexample:
  "run example_env ''partner-cloud'' ''PC5a'' = Inr (0, 0)
   \<and> grant_tasks example_env ''partner-cloud'' ''PC5a'' = Inr [Inr example_outcome]
   \<and> length (success example_outcome) = 2"
  by (simp add: example_run example_grant_tasks example_outcome_def)

text \<open>
  C1, as amended: a run that completes without a fatal error has started its group
  changes and returns the pair \<open>(0, 0)\<close>, whatever their outcomes.
\<close>

theorem run_returns_zero_zero:
  "run env project cloud = Inr summary \<Longrightarrow>
     summary = (0, 0) \<and> (\<exists>tasks. grant_tasks env project cloud = Inr tasks)"
  by (auto simp: run_def split: sum.splits)

theorem run_returns_zero_zero_witness:
  "run example_env ''partner-cloud'' ''PC5a'' = Inr (0, 0)
   \<and> (\<exists>tasks. grant_tasks example_env ''partner-cloud'' ''PC5a'' = Inr tasks)"
proof -
  have h: "run example_env ''partner-cloud'' ''PC5a'' = Inr (0, 0)"
    by (rule example_run)
  show ?thesis using h run_returns_zero_zero [OF h] by simp
qed

end
